theory Spec2Isabelle
  imports Main "HOL-Library.Sublist"
begin

section \<open>Bytes and the Python byte-string operations the client uses\<close>

text \<open>
  The client (\<^verbatim>\<open>tinySA_python.py\<close>, class \<^verbatim>\<open>TinySA\<close>) handles Python \<^verbatim>\<open>bytes\<close> and
  \<^verbatim>\<open>bytearray\<close> values. A byte is a \<^typ>\<open>char\<close> (8 bits), a byte string a \<^typ>\<open>string\<close>.
  Every command string the client builds is ASCII, so \<^verbatim>\<open>bytes(writebyte, 'utf-8')\<close> is the
  identity on the characters.
\<close>

type_synonym bytes = string

definition CR :: char where
  "CR = CHR 0x0D"

definition LF :: char where
  "LF = CHR 0x0A"

definition CRLF :: bytes where
  "CRLF = [CR, LF]"

text \<open>
  \<^verbatim>\<open>data.find(sub)\<close>: the lowest index at which \<^verbatim>\<open>sub\<close> occurs in \<^verbatim>\<open>data\<close>. Python returns
  \<^verbatim>\<open>-1\<close> when there is none, and \<^verbatim>\<open>data.index(sub)\<close> raises \<^verbatim>\<open>ValueError\<close> there; both
  are \<open>None\<close> here.
\<close>

fun find_bytes :: "bytes \<Rightarrow> bytes \<Rightarrow> nat option" where
  "find_bytes sub [] = (if sub = [] then Some 0 else None)"
| "find_bytes sub (x # xs) =
     (if prefix sub (x # xs) then Some 0 else map_option Suc (find_bytes sub xs))"

text \<open>\<^verbatim>\<open>data.endswith(sub)\<close>.\<close>

definition endswith :: "bytes \<Rightarrow> bytes \<Rightarrow> bool" where
  "endswith data sub = suffix sub data"

text \<open>
  \<^verbatim>\<open>data[:-4]\<close>: all but the last four bytes; the empty byte string when \<^verbatim>\<open>data\<close> has
  fewer than four bytes (the subtraction on \<^typ>\<open>nat\<close> stops at 0, as the slice does).
\<close>

definition drop_last4 :: "bytes \<Rightarrow> bytes" where
  "drop_last4 data = take (length data - 4) data"

section \<open>The serial handle\<close>

text \<open>
  \<^verbatim>\<open>self.ser\<close> and the process's standard output, as explicit state.
  \<^item> \<open>pending\<close>: what the device delivers, one element for each time the read loop looks at
    \<^verbatim>\<open>ser.in_waiting\<close>: the bytes waiting at that moment (\<open>[]\<close> when \<^verbatim>\<open>in_waiting\<close> is 0).
    After the last element the device stays silent for ever.
  \<^item> \<open>written\<close>: all bytes passed to \<^verbatim>\<open>ser.write\<close> so far.
  \<^item> \<open>stdout\<close>: the lines printed so far.
  Faults of the transport itself (a \<^verbatim>\<open>SerialException\<close> out of \<^verbatim>\<open>read\<close> or \<^verbatim>\<open>write\<close>) are not
  modelled.
\<close>

record serial =
  pending :: "bytes list"
  written :: bytes
  stdout :: "string list"

text \<open>
  How a call ends: it returns a value, it never returns (the read loop spins on a silent
  device), or it raises \<^verbatim>\<open>TypeError\<close>.
\<close>

datatype 'a outcome = Returns 'a | Hangs | RaisesTypeError

section \<open>Receiving one frame: \<^verbatim>\<open>getSerialReturn\<close>\<close>

text \<open>
  The \<^verbatim>\<open>while True\<close> loop of \<^verbatim>\<open>getSerialReturn\<close>, by recursion on what the device still
  delivers. The first argument is the local variable \<^verbatim>\<open>buffer\<close>. A poll with nothing waiting
  goes round again. After a read, \<^verbatim>\<open>buffer.index(b'>')\<close> and then \<^verbatim>\<open>buffer.index(b'ch>')\<close>
  are evaluated inside one \<^verbatim>\<open>try\<close>; a \<^verbatim>\<open>ValueError\<close> from either goes round again
  (\<^verbatim>\<open>continue\<close>). When both succeed the loop breaks, with \<^verbatim>\<open>complete\<close> the buffer up to and
  including the first \<^verbatim>\<open>>\<close> and \<^verbatim>\<open>buffer\<close> reassigned to \<^verbatim>\<open>buffer[buffer.index(b'ch>')+1:]\<close>.
  The result is \<open>(complete, buffer, rest of the device's deliveries)\<close>; \<open>None\<close> when the
  deliveries run out first, where the source loops for ever. Nothing else in the \<^verbatim>\<open>try\<close>
  block can raise, so the \<^verbatim>\<open>except Exception\<close> branch is never taken.
\<close>

fun read_loop :: "bytes \<Rightarrow> bytes list \<Rightarrow> (bytes \<times> bytes \<times> bytes list) option" where
  "read_loop buffer [] = None"
| "read_loop buffer (chunk # rest) =
     (if length chunk > 0 then
        (let buffer = buffer @ chunk in
         case find_bytes ''>'' buffer of
           None \<Rightarrow> read_loop buffer rest
         | Some i \<Rightarrow>
             (let complete = take (i + 1) buffer in
              case find_bytes ''ch>'' buffer of
                None \<Rightarrow> read_loop buffer rest
              | Some j \<Rightarrow> Some (complete, drop (j + 1) buffer, rest)))
      else read_loop buffer rest)"

text \<open>
  \<^verbatim>\<open>getSerialReturn\<close> starts every call with \<^verbatim>\<open>buffer = bytes()\<close> and returns
  \<^verbatim>\<open>bytearray(complete)\<close> only: the final value of the local \<^verbatim>\<open>buffer\<close> is dropped.
\<close>

definition getSerialReturn :: "serial \<Rightarrow> bytes outcome \<times> serial" where
  "getSerialReturn s =
     (case read_loop [] (pending s) of
        None \<Rightarrow> (Hangs, s\<lparr>pending := []\<rparr>)
      | Some (complete, buffer, rest) \<Rightarrow> (Returns complete, s\<lparr>pending := rest\<rparr>))"

section \<open>Normalising a frame: \<^verbatim>\<open>cleanReturn\<close>\<close>

definition cleanReturn :: "bytes \<Rightarrow> bytes" where
  "cleanReturn data =
     (let data = (case find_bytes CRLF data of
                    Some first_newline_index \<Rightarrow> drop (first_newline_index + 2) data
                  | None \<Rightarrow> data)
      in if endswith data ''ch>'' then drop_last4 data else data)"

section \<open>Send, receive, normalise: \<^verbatim>\<open>tinySASerial\<close>\<close>

text \<open>
  Every caller passes \<^verbatim>\<open>printBool=False\<close>, so the optional print of the payload is left out.
\<close>

definition tinySASerial :: "string \<Rightarrow> serial \<Rightarrow> bytes outcome \<times> serial" where
  "tinySASerial writebyte s =
     (case getSerialReturn (s\<lparr>written := written s @ writebyte\<rparr>) of
        (Returns msgbytes, s') \<Rightarrow> (Returns (cleanReturn msgbytes), s')
      | (Hangs, s') \<Rightarrow> (Hangs, s')
      | (RaisesTypeError, s') \<Rightarrow> (RaisesTypeError, s'))"

definition version :: "serial \<Rightarrow> bytes outcome \<times> serial" where
  "version s = tinySASerial (''version'' @ CRLF) s"

section \<open>Argument values and their stringification\<close>

text \<open>
  The arguments a caller passes: \<^verbatim>\<open>None\<close>, an \<^verbatim>\<open>int\<close> (unbounded) or a \<^verbatim>\<open>str\<close>. Python's
  \<^verbatim>\<open>==\<close> on these is equality of the values (an \<^verbatim>\<open>int\<close> never equals a \<^verbatim>\<open>str\<close>), which is
  HOL's equality on the datatype. Arguments of other types (\<^verbatim>\<open>bool\<close>, \<^verbatim>\<open>float\<close>) are outside
  this model.
\<close>

datatype pyval = PyNone | PyInt int | PyStr string

definition digit_char :: "nat \<Rightarrow> char" where
  "digit_char d = ''0123456789'' ! (d mod 10)"

fun str_nat :: "nat \<Rightarrow> string" where
  "str_nat n = (if n < 10 then [digit_char n] else str_nat (n div 10) @ [digit_char (n mod 10)])"

declare str_nat.simps [simp del]

definition str_int :: "int \<Rightarrow> string" where
  "str_int i = (if i < 0 then CHR ''-'' # str_nat (nat (- i)) else str_nat (nat i))"

text \<open>\<^verbatim>\<open>str(val)\<close>.\<close>

fun str :: "pyval \<Rightarrow> string" where
  "str PyNone = ''None''"
| "str (PyInt i) = str_int i"
| "str (PyStr s) = s"

text \<open>
  \<^verbatim>\<open>str(id)\<close> inside \<^verbatim>\<open>dac\<close> and \<^verbatim>\<open>vbat_offset\<close>: neither method has a parameter or local named
  \<^verbatim>\<open>id\<close>, so the name is Python's built-in function, whose \<^verbatim>\<open>str\<close> is this text.
\<close>

definition str_builtin_id :: string where
  "str_builtin_id = ''<built-in function id>''"

text \<open>\<^verbatim>\<open>isinstance(val, int)\<close>.\<close>

fun isinstance_int :: "pyval \<Rightarrow> bool" where
  "isinstance_int (PyInt i) = True"
| "isinstance_int v = False"

text \<open>
  \<^verbatim>\<open>val in np.arange(start, stop, 1)\<close>: the integers from \<^verbatim>\<open>start\<close> up to and excluding
  \<^verbatim>\<open>stop\<close>; no \<^verbatim>\<open>str\<close> and not \<^verbatim>\<open>None\<close>.
\<close>

fun in_arange :: "pyval \<Rightarrow> int \<Rightarrow> int \<Rightarrow> bool" where
  "in_arange (PyInt i) start stop = (start \<le> i \<and> i < stop)"
| "in_arange v start stop = False"

text \<open>\<^verbatim>\<open>lo <= val <= hi\<close> where \<^verbatim>\<open>isinstance(val, int)\<close> has been checked first.\<close>

fun int_between :: "int \<Rightarrow> pyval \<Rightarrow> int \<Rightarrow> bool" where
  "int_between lo (PyInt i) hi = (lo \<le> i \<and> i \<le> hi)"
| "int_between lo v hi = False"

text \<open>\<^verbatim>\<open>print(msg)\<close>.\<close>

definition print_line :: "string \<Rightarrow> serial \<Rightarrow> serial" where
  "print_line msg s = s\<lparr>stdout := stdout s @ [msg]\<rparr>"

text \<open>A \<^verbatim>\<open>print\<close> that follows \<^verbatim>\<open>tinySASerial\<close> runs only when that call has returned.\<close>

fun then_print :: "string \<Rightarrow> bytes outcome \<times> serial \<Rightarrow> bytes outcome \<times> serial" where
  "then_print msg (Returns msgbytes, s) = (Returns msgbytes, print_line msg s)"
| "then_print msg (Hangs, s) = (Hangs, s)"
| "then_print msg (RaisesTypeError, s) = (RaisesTypeError, s)"

section \<open>The commands that check their argument\<close>

definition agc :: "pyval \<Rightarrow> serial \<Rightarrow> bytes outcome \<times> serial" where
  "agc val s =
     (if val = PyStr ''auto'' \<or> in_arange val 0 8
      then tinySASerial (''agc '' @ str val @ CRLF) s
      else (Returns ''ERROR'', print_line ''ERROR: agc() takes vals [0 - 7]|auto'' s))"

definition attenuate :: "pyval \<Rightarrow> serial \<Rightarrow> bytes outcome \<times> serial" where
  "attenuate val s =
     (if val = PyStr ''auto'' \<or> in_arange val 0 31
      then tinySASerial (''attenuate '' @ str val @ CRLF) s
      else (Returns [], print_line ''ERROR: attenuate() takes vals [0 - 31]|auto'' s))"

definition caloutput :: "pyval \<Rightarrow> serial \<Rightarrow> bytes outcome \<times> serial" where
  "caloutput val s =
     (if val \<in> set [PyStr ''off'', PyInt 1, PyInt 2, PyInt 3, PyInt 4, PyInt 10, PyInt 15, PyInt 30]
      then tinySASerial (''caloutput '' @ str val @ CRLF) s
      else (Returns [], print_line ''ERROR: caloutput() takes vals 1|2|3|4|10|15|30|off'' s))"

definition dac :: "pyval \<Rightarrow> serial \<Rightarrow> bytes outcome \<times> serial" where
  "dac val s =
     (if val = PyNone
      then tinySASerial (''dac'' @ CRLF) s
      else if isinstance_int val \<and> int_between 0 val 4095
      then then_print (''dac set to '' @ str_builtin_id)
             (tinySASerial (''dac '' @ str_builtin_id @ CRLF) s)
      else (Returns [], print_line ''ERROR: dac() takes either None or integers'' s))"

definition data :: "pyval \<Rightarrow> serial \<Rightarrow> bytes outcome \<times> serial" where
  "data val s =
     (if val \<in> set [PyInt 0, PyInt 1, PyInt 2]
      then tinySASerial (''data '' @ str val @ CRLF) s
      else (Returns [], print_line ''ERROR: data() takes vals [0-2]'' s))"

definition deviceid :: "pyval \<Rightarrow> serial \<Rightarrow> bytes outcome \<times> serial" where
  "deviceid id' s =
     (if id' = PyNone
      then tinySASerial (''deviceid'' @ CRLF) s
      else if isinstance_int id'
      then then_print (''device ID set to '' @ str id')
             (tinySASerial (''deviceid '' @ str id' @ CRLF) s)
      else (Returns [], print_line ''ERROR: deviceid() takes either None or integers'' s))"

definition ext_gain :: "pyval \<Rightarrow> serial \<Rightarrow> bytes outcome \<times> serial" where
  "ext_gain val s =
     (if isinstance_int val \<and> int_between (- 100) val 100
      then tinySASerial (''ext_gain '' @ str val @ CRLF) s
      else (Returns [], print_line ''ERROR: ext_gain() takes vals [-100 - 100]'' s))"

definition freq :: "pyval \<Rightarrow> serial \<Rightarrow> bytes outcome \<times> serial" where
  "freq val s =
     (if isinstance_int val \<and> int_between (100 * 10 ^ 3) val (53 * 10 ^ 8)
      then tinySASerial (''freq '' @ str val @ CRLF) s
      else (Returns [], print_line
              ''ERROR: freq() takes integer vals [100 kHz - 5.3 GHz] as Hz for the tinySA Ultra'' s))"

text \<open>
  \<^verbatim>\<open>setIF\<close> and \<^verbatim>\<open>if1\<close> compare without an \<^verbatim>\<open>isinstance\<close> check: for a \<^verbatim>\<open>str\<close> or \<^verbatim>\<open>None\<close>
  argument \<^verbatim>\<open>val == 0\<close> is false and \<^verbatim>\<open>433*10**6 <= val\<close> raises \<^verbatim>\<open>TypeError\<close>.
\<close>

definition setIF :: "pyval \<Rightarrow> serial \<Rightarrow> bytes outcome \<times> serial" where
  "setIF val s =
     (case val of
        PyInt i \<Rightarrow>
          (if i = 0 \<or> (433 * 10 ^ 6 \<le> i \<and> i \<le> 435 * 10 ^ 6)
           then tinySASerial (''if '' @ str val @ CRLF) s
           else (Returns [], print_line
                   ''ERROR: if() takes vals [0 |433M...435M] in Hz as integers'' s))
      | PyStr x \<Rightarrow> (RaisesTypeError, s)
      | PyNone \<Rightarrow> (RaisesTypeError, s))"

definition if1 :: "pyval \<Rightarrow> serial \<Rightarrow> bytes outcome \<times> serial" where
  "if1 val s =
     (case val of
        PyInt i \<Rightarrow>
          (if i = 0 \<or> (975 * 10 ^ 6 \<le> i \<and> i \<le> 979 * 10 ^ 6)
           then tinySASerial (''if1 '' @ str val @ CRLF) s
           else (Returns [], print_line
                   ''ERROR: if1() takes vals [0 |975M...979M] in Hz as integers'' s))
      | PyStr x \<Rightarrow> (RaisesTypeError, s)
      | PyNone \<Rightarrow> (RaisesTypeError, s))"

definition levelchange :: "pyval \<Rightarrow> serial \<Rightarrow> bytes outcome \<times> serial" where
  "levelchange val s =
     (if in_arange val (- 70) 71
      then tinySASerial (''levelchange '' @ str val @ CRLF) s
      else (Returns [], print_line ''ERROR: levelchange() takes vals [-70 - 70]'' s))"

definition load :: "pyval \<Rightarrow> serial \<Rightarrow> bytes outcome \<times> serial" where
  "load val s =
     (if val \<in> set [PyInt 0, PyInt 1, PyInt 2, PyInt 3, PyInt 4]
      then tinySASerial (''load '' @ str val @ CRLF) s
      else (Returns [], print_line ''ERROR: load() takes vals [0 - 4]'' s))"

definition lna :: "pyval \<Rightarrow> serial \<Rightarrow> bytes outcome \<times> serial" where
  "lna val s =
     (if val \<in> set [PyStr ''on'', PyStr ''off'']
      then tinySASerial (''lna '' @ str val @ CRLF) s
      else (Returns [], print_line ''ERROR: lna() takes vals [on|off]'' s))"

definition lna2 :: "pyval \<Rightarrow> serial \<Rightarrow> bytes outcome \<times> serial" where
  "lna2 val s =
     (if val = PyStr ''auto'' \<or>
         val \<in> set [PyInt 0, PyInt 1, PyInt 2, PyInt 3, PyInt 4, PyInt 5, PyInt 6, PyInt 7]
      then tinySASerial (''lna2 '' @ str val @ CRLF) s
      else (Returns [], print_line ''ERROR: lna2() takes vals [0 - 7]|auto'' s))"

definition output' :: "pyval \<Rightarrow> serial \<Rightarrow> bytes outcome \<times> serial" where
  "output' val s =
     (if val \<in> set [PyStr ''on'', PyStr ''off'']
      then tinySASerial (''output '' @ str val @ CRLF) s
      else (Returns [], print_line ''ERROR: output() takes vals [on|off]'' s))"

definition rbw :: "pyval \<Rightarrow> serial \<Rightarrow> bytes outcome \<times> serial" where
  "rbw val s =
     (if val = PyStr ''auto''
      then tinySASerial (''rbw '' @ str val @ CRLF) s
      else if isinstance_int val \<and> int_between (3 * 10 ^ 3) val (600 * 10 ^ 3)
      then tinySASerial (''rbw '' @ str val @ CRLF) s
      else (Returns [], print_line
              ''ERROR: rbw() takes vals [auto |0 - 600] in kHz as integers'' s))"

definition recall :: "pyval \<Rightarrow> serial \<Rightarrow> bytes outcome \<times> serial" where
  "recall val s =
     (if val \<in> set [PyInt 0, PyInt 1, PyInt 2, PyInt 3, PyInt 4]
      then tinySASerial (''recall '' @ str val @ CRLF) s
      else (Returns [], print_line ''ERROR: recall() takes vals [0 - 4]'' s))"

definition refresh :: "pyval \<Rightarrow> serial \<Rightarrow> bytes outcome \<times> serial" where
  "refresh val s =
     (if val \<in> set [PyStr ''on'', PyStr ''off'']
      then tinySASerial (''refresh '' @ str val @ CRLF) s
      else (Returns [], print_line ''ERROR: refresh() takes vals [on|off]'' s))"

definition save :: "pyval \<Rightarrow> serial \<Rightarrow> bytes outcome \<times> serial" where
  "save val s =
     (if val \<in> set [PyInt 0, PyInt 1, PyInt 2, PyInt 3, PyInt 4]
      then tinySASerial (''save '' @ str val @ CRLF) s
      else (Returns [], print_line ''ERROR: save() takes vals [0 - 4] as integers'' s))"

definition selftest :: "pyval \<Rightarrow> serial \<Rightarrow> bytes outcome \<times> serial" where
  "selftest val s =
     (if val \<in> set [PyInt 0, PyInt 1, PyInt 2, PyInt 3, PyInt 4,
                     PyInt 5, PyInt 6, PyInt 7, PyInt 8, PyInt 9]
      then tinySASerial (''selftest '' @ str val @ CRLF)
             (print_line ''SELFTEST RUNNING. CONNECT CAL to RF'' s)
      else (Returns [], print_line ''ERROR: selftest() takes vals [0-9]'' s))"

definition spur :: "pyval \<Rightarrow> serial \<Rightarrow> bytes outcome \<times> serial" where
  "spur val s =
     (if val \<in> set [PyStr ''on'', PyStr ''off'']
      then tinySASerial (''spur '' @ str val @ CRLF) s
      else (Returns [], print_line ''ERROR: spur() takes vals [on|off]'' s))"

definition vbat_offset :: "pyval \<Rightarrow> serial \<Rightarrow> bytes outcome \<times> serial" where
  "vbat_offset val s =
     (if val = PyNone
      then tinySASerial (''vbat_offset'' @ CRLF) s
      else if isinstance_int val \<and> int_between 0 val 4095
      then then_print (''vbat_offset set to '' @ str_builtin_id)
             (tinySASerial (''vbat_offset '' @ str_builtin_id @ CRLF) s)
      else (Returns [], print_line
              ''ERROR: vbat_offset() takes either None or [0 - 4095] integers'' s))"

text \<open>
  The argument-checking methods of the class, by name, so that a statement can range over
  all of them: \<open>call c val s\<close> is the method \<open>c\<close> called with \<^verbatim>\<open>val\<close>.
\<close>

datatype command =
    Agc | Attenuate | Caloutput | Dac | Data | Deviceid | Ext_gain | Freq | SetIF | If1
  | Levelchange | Load | Lna | Lna2 | Output | Rbw | Recall | Refresh | Save | Selftest
  | Spur | Vbat_offset

fun call :: "command \<Rightarrow> pyval \<Rightarrow> serial \<Rightarrow> bytes outcome \<times> serial" where
  "call Agc = agc"
| "call Attenuate = attenuate"
| "call Caloutput = caloutput"
| "call Dac = dac"
| "call Data = data"
| "call Deviceid = deviceid"
| "call Ext_gain = ext_gain"
| "call Freq = freq"
| "call SetIF = setIF"
| "call If1 = if1"
| "call Levelchange = levelchange"
| "call Load = load"
| "call Lna = lna"
| "call Lna2 = lna2"
| "call Output = output'"
| "call Rbw = rbw"
| "call Recall = recall"
| "call Refresh = refresh"
| "call Save = save"
| "call Selftest = selftest"
| "call Spur = spur"
| "call Vbat_offset = vbat_offset"

text \<open>The command word each method puts on the wire (\<^verbatim>\<open>setIF\<close> sends \<^verbatim>\<open>if\<close>).\<close>

fun wire_name :: "command \<Rightarrow> string" where
  "wire_name Agc = ''agc''"
| "wire_name Attenuate = ''attenuate''"
| "wire_name Caloutput = ''caloutput''"
| "wire_name Dac = ''dac''"
| "wire_name Data = ''data''"
| "wire_name Deviceid = ''deviceid''"
| "wire_name Ext_gain = ''ext_gain''"
| "wire_name Freq = ''freq''"
| "wire_name SetIF = ''if''"
| "wire_name If1 = ''if1''"
| "wire_name Levelchange = ''levelchange''"
| "wire_name Load = ''load''"
| "wire_name Lna = ''lna''"
| "wire_name Lna2 = ''lna2''"
| "wire_name Output = ''output''"
| "wire_name Rbw = ''rbw''"
| "wire_name Recall = ''recall''"
| "wire_name Refresh = ''refresh''"
| "wire_name Save = ''save''"
| "wire_name Selftest = ''selftest''"
| "wire_name Spur = ''spur''"
| "wire_name Vbat_offset = ''vbat_offset''"

text \<open>
  The domain the source documents for \<^verbatim>\<open>rbw\<close>, in its comment
  \<^verbatim>\<open>usage: rbw auto|3..600\<close> (\<^verbatim>\<open>the number specifies the target rbw in kHz\<close>).
\<close>

definition rbw_usage :: "pyval \<Rightarrow> bool" where
  "rbw_usage val = (val = PyStr ''auto'' \<or> (isinstance_int val \<and> int_between 3 val 600))"

text \<open>What a frame must lack for \<^verbatim>\<open>cleanReturn\<close> to find nothing to strip.\<close>

definition no_framing_markers :: "bytes \<Rightarrow> bool" where
  "no_framing_markers x = (find_bytes CRLF x = None \<and> \<not> endswith x ''ch>'')"

text \<open>Serial handles used as concrete inputs below.\<close>

definition three_reads :: serial where
  "three_reads =
     \<lparr>pending = [''version'' @ CRLF, ''1.2'', ''.3'' @ CRLF @ ''ch>''], written = [], stdout = []\<rparr>"

definition pipelined :: serial where
  "pipelined =
     \<lparr>pending = [''vbat'' @ CRLF @ ''4132 mV'' @ CRLF @ ''ch>'' @
                 ''status'' @ CRLF @ ''Resumed'' @ CRLF @ ''ch>''],
      written = [], stdout = []\<rparr>"

definition silent :: serial where
  "silent = \<lparr>pending = [], written = [], stdout = []\<rparr>"

definition replying :: "bytes \<Rightarrow> serial" where
  "replying reply = \<lparr>pending = [reply], written = [], stdout = []\<rparr>"

section \<open>What a call of a checking command can look like from outside\<close>

text \<open>
  The bytes an accepted call puts on the wire, read off the methods: the command word, then
  (unless the argument is \<^verbatim>\<open>None\<close>) a space and the stringified argument, then the line
  break. \<^verbatim>\<open>dac\<close> and \<^verbatim>\<open>vbat_offset\<close> stringify \<^verbatim>\<open>id\<close> instead of their argument.
\<close>

definition code_wire :: "command \<Rightarrow> pyval \<Rightarrow> string" where
  "code_wire c v =
     wire_name c @
     (if v = PyNone then []
      else '' '' @ (if c = Dac \<or> c = Vbat_offset then str_builtin_id else str v)) @ CRLF"

text \<open>
  A rejection: the call returns the rejection value after printing one line that starts with
  \<^verbatim>\<open>ERROR: \<close>, and the serial handle is as before.
\<close>

definition rejected :: "command \<Rightarrow> serial \<Rightarrow> bytes outcome \<times> serial \<Rightarrow> bool" where
  "rejected c s r =
     (fst r = Returns (if c = Agc then ''ERROR'' else []) \<and>
      stdout (snd r) \<noteq> [] \<and> prefix ''ERROR: '' (last (stdout (snd r))) \<and>
      snd r = print_line (last (stdout (snd r))) s)"

text \<open>
  A transmission: the wire bytes have been appended to what was written, and no printed
  line starts with \<^verbatim>\<open>ERROR: \<close>.
\<close>

definition sent :: "command \<Rightarrow> pyval \<Rightarrow> serial \<Rightarrow> bytes outcome \<times> serial \<Rightarrow> bool" where
  "sent c v s r =
     (fst r \<noteq> RaisesTypeError \<and>
      written (snd r) = written s @ code_wire c v \<and>
      prefix (stdout s) (stdout (snd r)) \<and>
      list_all (\<lambda>l. \<not> prefix ''ERROR: '' l) (drop (length (stdout s)) (stdout (snd r))))"

definition shape :: "command \<Rightarrow> pyval \<Rightarrow> serial \<Rightarrow> bytes outcome \<times> serial \<Rightarrow> bool" where
  "shape c v s r = (rejected c s r \<or> sent c v s r)"

section \<open>Facts about the byte-string operations\<close>

lemmas byte_defs = CRLF_def CR_def LF_def

lemmas clean_defs = cleanReturn_def endswith_def drop_last4_def suffix_to_prefix

lemmas str_defs = str_int_def str_nat.simps digit_char_def

lemma find_single_None: "c \<notin> set xs \<Longrightarrow> find_bytes [c] xs = None"
  by (induction xs) auto

lemma find_single_Some: "c \<notin> set xs \<Longrightarrow> find_bytes [c] (xs @ c # ys) = Some (length xs)"
  by (induction xs) auto

lemma find_bytes_prefix: "prefix sub xs \<Longrightarrow> find_bytes sub xs = Some 0"
  by (cases xs) auto

lemma find_bytes_occurs: "\<exists>j. find_bytes sub (xs @ sub @ ys) = Some j"
proof (induction xs)
  case Nil
  then show ?case by (simp add: find_bytes_prefix)
next
  case (Cons x xs)
  then show ?case by auto
qed

lemma find_bytes_Some_lt: "find_bytes [c] xs = Some i \<Longrightarrow> i < length xs \<and> xs ! i = c"
proof (induction xs arbitrary: i)
  case Nil
  then show ?case by simp
next
  case (Cons x xs)
  then show ?case by (auto split: if_splits)
qed

lemma last_take_Suc:
  "i < length xs \<Longrightarrow> take (Suc i) xs \<noteq> [] \<and> last (take (Suc i) xs) = xs ! i"
  by (simp add: take_Suc_conv_app_nth)

lemma find_CRLF_after_echo:
  "find_bytes CRLF e = None \<Longrightarrow> find_bytes CRLF (e @ CRLF @ p) = Some (length e)"
proof (induction e)
  case Nil
  then show ?case by (simp add: CRLF_def)
next
  case (Cons x e)
  then show ?case by (cases e) (auto simp: CRLF_def CR_def LF_def split: if_splits)
qed

section \<open>The read loop\<close>

text \<open>
  Reassembly: when the device's deliveries, however they are cut, add up to a reply whose only
  \<^verbatim>\<open>>\<close> is the last byte of a closing \<^verbatim>\<open>ch>\<close>, the loop returns exactly that reply, and
  whatever it has not consumed is empty polls.
\<close>

lemma read_loop_reassemble:
  assumes "CHR ''>'' \<notin> set body"
  shows "buf @ concat cs = body @ ''ch>'' \<Longrightarrow> concat cs \<noteq> [] \<Longrightarrow>
         \<exists>buffer rest. read_loop buf cs = Some (body @ ''ch>'', buffer, rest) \<and> concat rest = []"
proof (induction cs arbitrary: buf)
  case Nil
  then show ?case by simp
next
  case (Cons c cs)
  show ?case
  proof (cases "c = []")
    case True
    with Cons show ?thesis by simp
  next
    case False
    show ?thesis
    proof (cases "concat cs = []")
      case True
      with Cons.prems have full: "buf @ c = body @ ''ch>''" by simp
      have gt: "find_bytes ''>'' (body @ ''ch>'') = Some (length body + 2)"
        using find_single_Some [of "CHR ''>''" "body @ ''ch''" "[]"] assms by simp
      obtain j where j: "find_bytes ''ch>'' (body @ ''ch>'') = Some j"
        using find_bytes_occurs [of "''ch>''" body "[]"] by auto
      show ?thesis using False True full gt j by simp
    next
      case nonempty: False
      from Cons.prems have eq: "(buf @ c) @ concat cs = body @ ''ch>''" by simp
      have "butlast ((buf @ c) @ concat cs) = (buf @ c) @ butlast (concat cs)"
        using nonempty by (simp only: butlast_append if_False)
      moreover have "butlast (body @ ''ch>'') = body @ ''ch''"
        by (simp add: butlast_append)
      ultimately have "(buf @ c) @ butlast (concat cs) = body @ ''ch''"
        using eq by simp
      then have "set (buf @ c) \<subseteq> set (body @ ''ch'')"
        by (metis set_append Un_upper1)
      moreover have "CHR ''>'' \<notin> set (body @ ''ch'')" using assms by simp
      ultimately have "CHR ''>'' \<notin> set (buf @ c)" by blast
      then have none: "find_bytes ''>'' (buf @ c) = None" by (rule find_single_None)
      from Cons.IH [OF eq nonempty] none False show ?thesis by simp
    qed
  qed
qed

text \<open>Whenever the loop ends, the frame it hands back ends in \<^verbatim>\<open>>\<close>.\<close>

lemma read_loop_frame_ends_with_delimiter:
  "read_loop buf cs = Some (complete, buffer, rest) \<Longrightarrow>
   complete \<noteq> [] \<and> last complete = CHR ''>''"
proof (induction cs arbitrary: buf)
  case Nil
  then show ?case by simp
next
  case (Cons c cs)
  show ?case
  proof (cases "c = []")
    case True
    with Cons show ?thesis by simp
  next
    case False
    show ?thesis
    proof (cases "find_bytes ''>'' (buf @ c)")
      case None
      with Cons False show ?thesis by simp
    next
      case (Some i)
      note i = find_bytes_Some_lt [OF Some]
      show ?thesis
      proof (cases "find_bytes ''ch>'' (buf @ c)")
        case None
        with Cons False Some show ?thesis by simp
      next
        case (Some j)
        with Cons.prems False \<open>find_bytes ''>'' (buf @ c) = Some i\<close>
        have "complete = take (Suc i) (buf @ c)" by simp
        with i last_take_Suc [of i "buf @ c"] show ?thesis by (simp del: take_append)
      qed
    qed
  qed
qed

text \<open>While no \<^verbatim>\<open>>\<close> has arrived the loop goes on reading; it does not fail.\<close>

lemma read_loop_no_delimiter:
  "CHR ''>'' \<notin> set (buf @ concat cs) \<Longrightarrow> read_loop buf cs = None"
proof (induction cs arbitrary: buf)
  case Nil
  then show ?case by simp
next
  case (Cons c cs)
  then have "find_bytes ''>'' (buf @ c) = None" by (intro find_single_None) simp
  moreover have "read_loop (buf @ c) cs = None" "read_loop buf cs = None"
    using Cons by simp_all
  ultimately show ?case by simp
qed

lemma getSerialReturn_effects:
  "getSerialReturn s = (out, s') \<Longrightarrow>
   written s' = written s \<and> stdout s' = stdout s \<and> out \<noteq> RaisesTypeError"
  by (auto simp: getSerialReturn_def split: option.splits prod.splits)

lemma tinySASerial_effects:
  "tinySASerial w s = (out, s') \<Longrightarrow>
   written s' = written s @ w \<and> stdout s' = stdout s \<and> out \<noteq> RaisesTypeError"
  by (auto simp: tinySASerial_def split: prod.splits outcome.splits
      dest!: getSerialReturn_effects)

lemma then_print_tinySASerial:
  assumes "then_print msg (tinySASerial w s) = (out, s')"
  shows "written s' = written s @ w \<and> out \<noteq> RaisesTypeError \<and>
         (stdout s' = stdout s \<or> stdout s' = stdout s @ [msg])"
proof (cases "tinySASerial w s")
  case (Pair r t)
  note eff = tinySASerial_effects [OF Pair]
  show ?thesis
  proof (cases r)
    case (Returns m)
    with assms Pair eff show ?thesis by (auto simp: print_line_def)
  next
    case Hangs
    with assms Pair eff show ?thesis by auto
  next
    case RaisesTypeError
    with eff show ?thesis by simp
  qed
qed

section \<open>Claims about receiving a frame\<close>

text \<open>
  C1. The claim: when a complete frame arrives together with the start (or the whole) of a
  further reply, the receive operation returns the first frame and keeps the bytes after it
  for the next call, whose frame then begins where the previous one ended.

  The code at that input: one read delivers the replies to \<^verbatim>\<open>vbat\<close> and \<^verbatim>\<open>status\<close> back to
  back. The first call returns the first frame; the local \<^verbatim>\<open>buffer\<close> then holds
  \<^verbatim>\<open>h>status...\<close> (the slice starts one byte after the \<^verbatim>\<open>c\<close> of \<^verbatim>\<open>ch>\<close>) and is dropped on
  return. The next call starts from an empty buffer: on a device that sends nothing more it
  never returns, and when a third reply arrives later it returns that one. The second
  reply is never returned.
\<close>

theorem getSerialReturn_drops_pipelined_reply:
  "getSerialReturn pipelined =
     (Returns (''vbat'' @ CRLF @ ''4132 mV'' @ CRLF @ ''ch>''), pipelined\<lparr>pending := []\<rparr>) \<and>
   read_loop [] (pending pipelined) =
     Some (''vbat'' @ CRLF @ ''4132 mV'' @ CRLF @ ''ch>'',
           ''h>status'' @ CRLF @ ''Resumed'' @ CRLF @ ''ch>'', []) \<and>
   getSerialReturn (snd (getSerialReturn pipelined)) = (Hangs, pipelined\<lparr>pending := []\<rparr>) \<and>
   getSerialReturn (snd (getSerialReturn
       (pipelined\<lparr>pending := pending pipelined @ [''help'' @ CRLF @ ''ch>'']\<rparr>))) =
     (Returns (''help'' @ CRLF @ ''ch>''), pipelined\<lparr>pending := []\<rparr>)"
  by (simp add: getSerialReturn_def pipelined_def byte_defs)

text \<open>
  C2. The claim: as soon as the accumulated buffer contains \<^verbatim>\<open>>\<close> the receive operation
  stops looping and returns the buffer up to and including the first \<^verbatim>\<open>>\<close>; every returned
  frame ends in \<^verbatim>\<open>>\<close>; while \<^verbatim>\<open>>\<close> is absent the loop continues rather than erroring.

  The code at a buffer that holds \<^verbatim>\<open>>\<close> but not yet \<^verbatim>\<open>ch>\<close>: the second \<^verbatim>\<open>index\<close> raises
  \<^verbatim>\<open>ValueError\<close> inside the same \<^verbatim>\<open>try\<close>, so the loop goes on. With nothing more to read the
  call never returns; when the prompt arrives in a later read, that read is consumed too
  before the frame up to the first \<^verbatim>\<open>>\<close> is returned. (That every returned frame ends in
  \<^verbatim>\<open>>\<close> and that the loop continues while \<^verbatim>\<open>>\<close> is absent hold:
  \<open>read_loop_frame_ends_with_delimiter\<close>, \<open>read_loop_no_delimiter\<close>.)
\<close>

theorem getSerialReturn_waits_for_prompt_token:
  "find_bytes ''>'' (''data'' @ CRLF @ ''1>0'') = Some 7 \<and>
   getSerialReturn \<lparr>pending = [''data'' @ CRLF @ ''1>0''], written = [], stdout = []\<rparr> =
     (Hangs, \<lparr>pending = [], written = [], stdout = []\<rparr>) \<and>
   getSerialReturn
     \<lparr>pending = [''data'' @ CRLF @ ''1>0'', CRLF @ ''ch>'', ''x''], written = [], stdout = []\<rparr> =
     (Returns (''data'' @ CRLF @ ''1>''), \<lparr>pending = [''x''], written = [], stdout = []\<rparr>)"
  by (simp add: getSerialReturn_def byte_defs)

section \<open>Claims about normalising a frame\<close>

text \<open>
  C3, as claimed: when the tail equals \<^verbatim>\<open>ch>\<close>, exactly that 3-byte token is stripped and
  nothing more. It fails: the frame \<^verbatim>\<open>cmd\r\nxyzch>\<close> is normalised to \<^verbatim>\<open>xy\<close>, not \<^verbatim>\<open>xyz\<close>.
\<close>

theorem cleanReturn_three_byte_counterexample:
  "endswith ''xyzch>'' ''ch>'' \<and>
   cleanReturn (''cmd'' @ CRLF @ ''xyzch>'') = ''xy'' \<and>
   cleanReturn (''cmd'' @ CRLF @ ''xyzch>'') \<noteq> ''xyz''"
  by (simp add: clean_defs byte_defs)

text \<open>
  C3, amended: \<^verbatim>\<open>cleanReturn\<close> removes everything up to and including the first line break
  (here: an echo \<open>e\<close> without a line break, then the line break), and when what remains ends in
  \<^verbatim>\<open>ch>\<close> it strips the last four bytes, that is the token and the byte before it (everything,
  when fewer than four bytes remain). Without a line break the front is left as it is, and
  without a trailing \<^verbatim>\<open>ch>\<close> the end is left as it is.
\<close>

theorem cleanReturn_strips_four:
  assumes "find_bytes CRLF e = None"
  shows "cleanReturn (e @ CRLF @ p) = (if suffix ''ch>'' p then take (length p - 4) p else p) \<and>
         cleanReturn e = (if suffix ''ch>'' e then take (length e - 4) e else e)"
  using assms find_CRLF_after_echo [OF assms, of p]
  by (simp add: cleanReturn_def endswith_def drop_last4_def CRLF_def)

theorem cleanReturn_strips_four_witness:
  "find_bytes CRLF ''version'' = None \<and>
   cleanReturn (''version'' @ CRLF @ ''1.2.3'' @ CRLF @ ''ch>'') = ''1.2.3'' @ [CR] \<and>
   cleanReturn ''version'' = ''version''"
proof -
  have h: "find_bytes CRLF ''version'' = None" by (simp add: byte_defs)
  show ?thesis
    using h cleanReturn_strips_four [OF h, of "''1.2.3'' @ CRLF @ ''ch>''"]
    by (simp add: byte_defs suffix_to_prefix)
qed

lemma cleanReturn_no_markers: "no_framing_markers x \<Longrightarrow> cleanReturn x = x"
  by (simp add: no_framing_markers_def cleanReturn_def)

text \<open>
  C9. For every byte sequence \<open>x\<close> with no framing markers left (no line break and no
  trailing prompt token), in \<open>x\<close> itself or in its normal form, normalising is idempotent:
  \<open>cleanReturn (cleanReturn x) = cleanReturn x\<close>.
\<close>

theorem cleanReturn_idempotent:
  "no_framing_markers x \<or> no_framing_markers (cleanReturn x) \<Longrightarrow>
   cleanReturn (cleanReturn x) = cleanReturn x"
  using cleanReturn_no_markers by metis

theorem cleanReturn_idempotent_witness:
  "no_framing_markers (''1.2.3'' @ [CR]) \<and>
   cleanReturn (cleanReturn (''1.2.3'' @ [CR])) = cleanReturn (''1.2.3'' @ [CR]) \<and>
   cleanReturn (''1.2.3'' @ [CR]) = ''1.2.3'' @ [CR]"
proof -
  have h: "no_framing_markers (''1.2.3'' @ [CR])"
    by (simp add: no_framing_markers_def byte_defs endswith_def suffix_to_prefix)
  have "cleanReturn (''1.2.3'' @ [CR]) = ''1.2.3'' @ [CR]"
    by (simp add: clean_defs byte_defs)
  with h cleanReturn_idempotent [of "''1.2.3'' @ [CR]"] show ?thesis by simp
qed

text \<open>Without the condition a second pass strips further: a payload of several lines.\<close>

lemma cleanReturn_not_idempotent_in_general:
  "cleanReturn (''a'' @ CRLF @ ''b'' @ CRLF @ ''c'') = ''b'' @ CRLF @ ''c'' \<and>
   cleanReturn (cleanReturn (''a'' @ CRLF @ ''b'' @ CRLF @ ''c'')) = ''c''"
  by (simp add: clean_defs byte_defs)

section \<open>The version round trip\<close>

text \<open>
  C4. However the device's reply \<^verbatim>\<open>version\r\n1.2.3\r\nch>\<close> is cut into reads (empty polls
  in between included), \<^verbatim>\<open>version()\<close> writes \<^verbatim>\<open>version\r\n\<close>, returns, and its result is exactly
  the payload \<^verbatim>\<open>1.2.3\r\<close>.
\<close>

theorem version_any_fragmentation:
  assumes "concat (pending s) = ''version'' @ CRLF @ ''1.2.3'' @ CRLF @ ''ch>''"
  shows "fst (version s) = Returns (''1.2.3'' @ [CR]) \<and>
         written (snd (version s)) = written s @ ''version'' @ CRLF"
proof -
  let ?body = "''version'' @ CRLF @ ''1.2.3'' @ CRLF"
  have nb: "CHR ''>'' \<notin> set ?body" by (simp add: byte_defs)
  have eq: "[] @ concat (pending s) = ?body @ ''ch>''" using assms by simp
  have ne: "concat (pending s) \<noteq> []" using assms by (simp del: concat_eq_Nil_conv)
  obtain buffer rest where r: "read_loop [] (pending s) = Some (?body @ ''ch>'', buffer, rest)"
    using read_loop_reassemble [OF nb eq ne] by blast
  have c: "cleanReturn (?body @ ''ch>'') = ''1.2.3'' @ [CR]"
    by (simp add: clean_defs byte_defs)
  show ?thesis
    using r c by (simp add: version_def tinySASerial_def getSerialReturn_def)
qed

theorem version_any_fragmentation_witness:
  "concat (pending three_reads) = ''version'' @ CRLF @ ''1.2.3'' @ CRLF @ ''ch>'' \<and>
   fst (version three_reads) = Returns (''1.2.3'' @ [CR]) \<and>
   written (snd (version three_reads)) = ''version'' @ CRLF"
proof -
  have h: "concat (pending three_reads) = ''version'' @ CRLF @ ''1.2.3'' @ CRLF @ ''ch>''"
    by (simp add: three_reads_def)
  show ?thesis using h version_any_fragmentation [OF h] by (simp add: three_reads_def)
qed

text \<open>The same, run on two of the named ways of cutting: a byte at a time, and at the delimiter.\<close>

lemma version_byte_at_a_time:
  "version \<lparr>pending = map (\<lambda>b. [b]) (''version'' @ CRLF @ ''1.2.3'' @ CRLF @ ''ch>''),
            written = [], stdout = []\<rparr> =
     (Returns (''1.2.3'' @ [CR]), \<lparr>pending = [], written = ''version'' @ CRLF, stdout = []\<rparr>)"
  by (simp add: version_def tinySASerial_def getSerialReturn_def clean_defs byte_defs)

lemma version_split_at_delimiter:
  "version \<lparr>pending = [''version'' @ CRLF @ ''1.2.3'' @ CRLF @ ''ch'', [], ''>''],
            written = [], stdout = []\<rparr> =
     (Returns (''1.2.3'' @ [CR]), \<lparr>pending = [], written = ''version'' @ CRLF, stdout = []\<rparr>)"
  by (simp add: version_def tinySASerial_def getSerialReturn_def clean_defs byte_defs)

section \<open>Every checking command either rejects or transmits\<close>

lemma shape_rejected_agc:
  "prefix ''ERROR: '' msg \<Longrightarrow> shape Agc v s (Returns ''ERROR'', print_line msg s)"
  by (simp add: shape_def rejected_def print_line_def)

lemma shape_rejected:
  "prefix ''ERROR: '' msg \<Longrightarrow> c \<noteq> Agc \<Longrightarrow> shape c v s (Returns [], print_line msg s)"
  by (simp add: shape_def rejected_def print_line_def)

lemma shape_sent:
  "w = code_wire c v \<Longrightarrow> shape c v s (tinySASerial w s)"
  using tinySASerial_effects [of w s "fst (tinySASerial w s)" "snd (tinySASerial w s)"]
  by (simp add: shape_def sent_def)

lemma shape_sent_print:
  "w = code_wire c v \<Longrightarrow> \<not> prefix ''ERROR: '' msg \<Longrightarrow>
   shape c v s (then_print msg (tinySASerial w s))"
  using then_print_tinySASerial [of msg w s "fst (then_print msg (tinySASerial w s))"
      "snd (then_print msg (tinySASerial w s))"]
  by (auto simp: shape_def sent_def)

lemma shape_print_sent:
  "w = code_wire c v \<Longrightarrow> \<not> prefix ''ERROR: '' msg \<Longrightarrow>
   shape c v s (tinySASerial w (print_line msg s))"
  using tinySASerial_effects [of w "print_line msg s" "fst (tinySASerial w (print_line msg s))"
      "snd (tinySASerial w (print_line msg s))"]
  by (auto simp: shape_def sent_def print_line_def)

lemmas shapeI = shape_rejected_agc shape_rejected shape_sent shape_sent_print shape_print_sent

lemma agc_shape: "shape Agc v s (agc v s)"
  unfolding agc_def by (auto intro!: shapeI simp: code_wire_def)

lemma attenuate_shape: "shape Attenuate v s (attenuate v s)"
  unfolding attenuate_def by (auto intro!: shapeI simp: code_wire_def)

lemma caloutput_shape: "shape Caloutput v s (caloutput v s)"
  unfolding caloutput_def by (auto intro!: shapeI simp: code_wire_def)

lemma dac_shape: "shape Dac v s (dac v s)"
  unfolding dac_def by (auto intro!: shapeI simp: code_wire_def str_builtin_id_def)

lemma data_shape: "shape Data v s (data v s)"
  unfolding data_def by (auto intro!: shapeI simp: code_wire_def)

lemma deviceid_shape: "shape Deviceid v s (deviceid v s)"
  unfolding deviceid_def by (auto intro!: shapeI simp: code_wire_def)

lemma ext_gain_shape: "shape Ext_gain v s (ext_gain v s)"
  unfolding ext_gain_def by (auto intro!: shapeI simp: code_wire_def)

lemma freq_shape: "shape Freq v s (freq v s)"
  unfolding freq_def by (auto intro!: shapeI simp: code_wire_def)

lemma levelchange_shape: "shape Levelchange v s (levelchange v s)"
  unfolding levelchange_def by (auto intro!: shapeI simp: code_wire_def)

lemma load_shape: "shape Load v s (load v s)"
  unfolding load_def by (auto intro!: shapeI simp: code_wire_def)

lemma lna_shape: "shape Lna v s (lna v s)"
  unfolding lna_def by (auto intro!: shapeI simp: code_wire_def)

lemma lna2_shape: "shape Lna2 v s (lna2 v s)"
  unfolding lna2_def by (auto intro!: shapeI simp: code_wire_def)

lemma output_shape: "shape Output v s (output' v s)"
  unfolding output'_def by (auto intro!: shapeI simp: code_wire_def)

lemma rbw_shape: "shape Rbw v s (rbw v s)"
  unfolding rbw_def by (auto intro!: shapeI simp: code_wire_def)

lemma recall_shape: "shape Recall v s (recall v s)"
  unfolding recall_def by (auto intro!: shapeI simp: code_wire_def)

lemma refresh_shape: "shape Refresh v s (refresh v s)"
  unfolding refresh_def by (auto intro!: shapeI simp: code_wire_def)

lemma save_shape: "shape Save v s (save v s)"
  unfolding save_def by (auto intro!: shapeI simp: code_wire_def)

lemma selftest_shape: "shape Selftest v s (selftest v s)"
  unfolding selftest_def by (auto intro!: shapeI simp: code_wire_def)

lemma spur_shape: "shape Spur v s (spur v s)"
  unfolding spur_def by (auto intro!: shapeI simp: code_wire_def)

lemma vbat_offset_shape: "shape Vbat_offset v s (vbat_offset v s)"
  unfolding vbat_offset_def by (auto intro!: shapeI simp: code_wire_def str_builtin_id_def)

lemma setIF_shape: "setIF v s = (RaisesTypeError, s) \<or> shape SetIF v s (setIF v s)"
  unfolding setIF_def by (cases v) (auto intro!: shapeI simp: code_wire_def)

lemma if1_shape: "if1 v s = (RaisesTypeError, s) \<or> shape If1 v s (if1 v s)"
  unfolding if1_def by (cases v) (auto intro!: shapeI simp: code_wire_def)

lemma call_shape: "call c v s = (RaisesTypeError, s) \<or> shape c v s (call c v s)"
  using agc_shape attenuate_shape caloutput_shape dac_shape data_shape deviceid_shape
    ext_gain_shape freq_shape setIF_shape if1_shape levelchange_shape load_shape lna_shape
    lna2_shape output_shape rbw_shape recall_shape refresh_shape save_shape selftest_shape
    spur_shape vbat_offset_shape
  by (cases c) simp_all

lemma code_wire_nonempty: "code_wire c v \<noteq> []"
  by (simp add: code_wire_def CRLF_def)

lemma call_trichotomy:
  assumes "call c v s = (out, s')"
  shows "(out = RaisesTypeError \<and> s' = s) \<or> rejected c s (out, s') \<or> sent c v s (out, s')"
  using call_shape [of c v s] assms by (auto simp: shape_def)

lemma rejected_effects:
  "rejected c s (out, s') \<Longrightarrow>
   out = Returns (if c = Agc then ''ERROR'' else []) \<and> written s' = written s \<and>
   pending s' = pending s \<and> (\<exists>msg. prefix ''ERROR: '' msg \<and> stdout s' = stdout s @ [msg])"
proof -
  assume r: "rejected c s (out, s')"
  then have eq: "s' = print_line (last (stdout s')) s"
    and pre: "prefix ''ERROR: '' (last (stdout s'))"
    and out: "out = Returns (if c = Agc then ''ERROR'' else [])"
    by (simp_all add: rejected_def)
  have "written s' = written s" "pending s' = pending s"
    "stdout s' = stdout s @ [last (stdout s')]"
    using arg_cong [OF eq, of written] arg_cong [OF eq, of pending] arg_cong [OF eq, of stdout]
    by (simp_all add: print_line_def)
  with pre out show ?thesis by blast
qed

lemma sent_effects:
  "sent c v s (out, s') \<Longrightarrow>
   written s' \<noteq> written s \<and> written s' = written s @ code_wire c v \<and>
   prefix (written s) (written s') \<and>
   (\<forall>l \<in> set (drop (length (stdout s)) (stdout s')). \<not> prefix ''ERROR: '' l)"
  by (simp add: sent_def code_wire_nonempty list_all_iff)

text \<open>
  A rejection touches neither direction of the transport; this is the rejection path of
  every checking command.
\<close>

lemma rejection_without_transport_interaction:
  assumes "call c v s = (out, s')" "written s' = written s"
  shows "pending s' = pending s"
proof -
  from call_trichotomy [OF assms(1)]
  consider "s' = s" | "rejected c s (out, s')" | "sent c v s (out, s')" by auto
  then show ?thesis
  proof cases
    case 1
    then show ?thesis by simp
  next
    case 2
    from rejected_effects [OF 2] show ?thesis by simp
  next
    case 3
    from sent_effects [OF 3] assms(2) show ?thesis by simp
  qed
qed

text \<open>
  The wire format of the accepted calls: command word, space, \<^verbatim>\<open>str(val)\<close>, line break, for
  every checking command but \<^verbatim>\<open>dac\<close> and \<^verbatim>\<open>vbat_offset\<close>.
\<close>

lemma wire_format_other_commands:
  assumes "call c v s = (out, s')" "written s' \<noteq> written s" "v \<noteq> PyNone"
    "c \<noteq> Dac" "c \<noteq> Vbat_offset"
  shows "written s' = written s @ wire_name c @ '' '' @ str v @ CRLF"
proof -
  from call_trichotomy [OF assms(1)] assms(2)
  consider "rejected c s (out, s')" | "sent c v s (out, s')" by auto
  then show ?thesis
  proof cases
    case 1
    from rejected_effects [OF 1] assms(2) show ?thesis by simp
  next
    case 2
    from sent_effects [OF 2] assms(3-5) show ?thesis by (simp add: code_wire_def)
  qed
qed

section \<open>Claims about the checking commands\<close>

text \<open>
  C5. The claim: for every command with a documented argument domain and every value
  outside that domain, nothing is written to the serial handle and nothing is read.

  The code at \<^verbatim>\<open>rbw(3000)\<close>: the source documents \<^verbatim>\<open>usage: rbw auto|3..600\<close>, the number being
  the bandwidth in kHz, and checks \<^verbatim>\<open>3*10**3 <= val <= 600*10**3\<close>. 3000 is outside the
  documented domain, passes the check, and \<^verbatim>\<open>rbw 3000\r\n\<close> is written to the serial handle.
  (Once a command does reject, it has touched neither direction of the transport:
  \<open>rejection_without_transport_interaction\<close>.)
\<close>

theorem rbw_3000_is_written:
  "\<not> rbw_usage (PyInt 3000) \<and>
   written (snd (rbw (PyInt 3000) s)) = written s @ ''rbw 3000'' @ CRLF"
  using tinySASerial_effects [of "''rbw 3000'' @ CRLF" s
      "fst (tinySASerial (''rbw 3000'' @ CRLF) s)" "snd (tinySASerial (''rbw 3000'' @ CRLF) s)"]
  by (simp add: rbw_usage_def rbw_def str_defs)

text \<open>
  C6, as claimed: the value returned on rejection can be told apart from every legitimate
  reply, the empty payload in particular. It fails: \<^verbatim>\<open>attenuate(99)\<close>, rejected without any
  write, and \<^verbatim>\<open>attenuate(15)\<close>, written and answered by the device with an empty payload,
  return the same value; so do \<^verbatim>\<open>output('maybe')\<close> and \<^verbatim>\<open>output('on')\<close>.
\<close>

theorem rejection_equals_empty_reply_counterexample:
  "fst (attenuate (PyInt 99) silent) =
     fst (attenuate (PyInt 15) (replying (''attenuate 15'' @ CRLF @ ''ch>''))) \<and>
   written (snd (attenuate (PyInt 99) silent)) = [] \<and>
   written (snd (attenuate (PyInt 15) (replying (''attenuate 15'' @ CRLF @ ''ch>'')))) =
     ''attenuate 15'' @ CRLF \<and>
   fst (output' (PyStr ''maybe'') silent) =
     fst (output' (PyStr ''on'') (replying (''output on'' @ CRLF @ ''ch>'')))"
  by (simp add: attenuate_def output'_def silent_def replying_def print_line_def
      tinySASerial_def getSerialReturn_def clean_defs byte_defs str_defs)

text \<open>
  C6, amended: whenever a checking command returns a value, either it has rejected its
  argument: the value is the empty bytearray (\<^verbatim>\<open>b'ERROR'\<close> for \<^verbatim>\<open>agc\<close>), nothing was written
  to or read from the serial handle, and one line starting with \<^verbatim>\<open>ERROR: \<close> was printed; or it
  has transmitted: bytes were appended to what was written and no line starting with
  \<^verbatim>\<open>ERROR: \<close> was printed. The two are told apart by these effects, not by the returned value.
\<close>

theorem rejection_told_apart_by_effects:
  assumes "call c v s = (Returns r, s')"
  shows "(r = (if c = Agc then ''ERROR'' else []) \<and> written s' = written s \<and>
          pending s' = pending s \<and>
          (\<exists>msg. prefix ''ERROR: '' msg \<and> stdout s' = stdout s @ [msg]))
       \<or> (written s' \<noteq> written s \<and> prefix (written s) (written s') \<and>
          (\<forall>l \<in> set (drop (length (stdout s)) (stdout s')). \<not> prefix ''ERROR: '' l))"
proof -
  from call_trichotomy [OF assms]
  consider "rejected c s (Returns r, s')" | "sent c v s (Returns r, s')" by auto
  then show ?thesis
  proof cases
    case 1
    from rejected_effects [OF 1] show ?thesis by simp
  next
    case 2
    from sent_effects [OF 2] show ?thesis by blast
  qed
qed

theorem rejection_told_apart_by_effects_witness:
  "call Output (PyStr ''maybe'') silent =
     (Returns [], print_line ''ERROR: output() takes vals [on|off]'' silent) \<and>
   written (print_line ''ERROR: output() takes vals [on|off]'' silent) = written silent \<and>
   pending (print_line ''ERROR: output() takes vals [on|off]'' silent) = pending silent \<and>
   stdout (print_line ''ERROR: output() takes vals [on|off]'' silent) =
     stdout silent @ [''ERROR: output() takes vals [on|off]'']"
proof -
  have h: "call Output (PyStr ''maybe'') silent =
     (Returns [], print_line ''ERROR: output() takes vals [on|off]'' silent)"
    by (simp add: output'_def)
  show ?thesis
    using h rejection_told_apart_by_effects [OF h] by (simp add: print_line_def)
qed

text \<open>
  C7. The claim: for \<^verbatim>\<open>attenuate\<close>, documented as \<^verbatim>\<open>[auto|0-31]\<close>, the boundary values 0 and 31
  are accepted and formatted, -1 and 32 are rejected, \<^verbatim>\<open>attenuate(15)\<close> writes
  \<^verbatim>\<open>attenuate 15\r\n\<close> and \<^verbatim>\<open>attenuate(99)\<close> is rejected with nothing written.

  The code at \<^verbatim>\<open>attenuate(31)\<close>: the accepted values are \<^verbatim>\<open>np.arange(0, 31, 1)\<close>, which stops at
  30, so 31 is rejected: the error line is printed, the empty bytearray returned, nothing
  written. (The other points of the claim hold: \<open>attenuate_other_points\<close>.)
\<close>

theorem attenuate_31_is_rejected:
  "attenuate (PyInt 31) s =
     (Returns [], print_line ''ERROR: attenuate() takes vals [0 - 31]|auto'' s) \<and>
   written (snd (attenuate (PyInt 31) s)) = written s"
  by (simp add: attenuate_def print_line_def)

lemma attenuate_other_points:
  "written (snd (attenuate (PyInt 0) s)) = written s @ ''attenuate 0'' @ CRLF"
  "written (snd (attenuate (PyInt 15) s)) = written s @ ''attenuate 15'' @ CRLF"
  "written (snd (attenuate (PyInt 30) s)) = written s @ ''attenuate 30'' @ CRLF"
  "attenuate (PyInt (- 1)) s =
     (Returns [], print_line ''ERROR: attenuate() takes vals [0 - 31]|auto'' s)"
  "attenuate (PyInt 32) s =
     (Returns [], print_line ''ERROR: attenuate() takes vals [0 - 31]|auto'' s)"
  "attenuate (PyInt 99) s =
     (Returns [], print_line ''ERROR: attenuate() takes vals [0 - 31]|auto'' s)"
  using tinySASerial_effects [of "''attenuate 0'' @ CRLF" s
      "fst (tinySASerial (''attenuate 0'' @ CRLF) s)"
      "snd (tinySASerial (''attenuate 0'' @ CRLF) s)"]
    tinySASerial_effects [of "''attenuate 15'' @ CRLF" s
      "fst (tinySASerial (''attenuate 15'' @ CRLF) s)"
      "snd (tinySASerial (''attenuate 15'' @ CRLF) s)"]
    tinySASerial_effects [of "''attenuate 30'' @ CRLF" s
      "fst (tinySASerial (''attenuate 30'' @ CRLF) s)"
      "snd (tinySASerial (''attenuate 30'' @ CRLF) s)"]
  by (simp_all add: attenuate_def str_defs)

text \<open>
  C8. The claim: for every accepted argument \<^verbatim>\<open>v\<close> the bytes written are the command word, a
  space, \<^verbatim>\<open>str(v)\<close> and \<^verbatim>\<open>\r\n\<close>; in particular \<^verbatim>\<open>dac(v)\<close> and \<^verbatim>\<open>vbat_offset(v)\<close> for an integer
  \<^verbatim>\<open>v\<close> in 0..4095.

  The code at \<^verbatim>\<open>dac(100)\<close> and \<^verbatim>\<open>vbat_offset(100)\<close>: both format \<^verbatim>\<open>str(id)\<close>, the built-in
  function, instead of \<^verbatim>\<open>str(val)\<close>, and write \<^verbatim>\<open>dac <built-in function id>\r\n\<close> and
  \<^verbatim>\<open>vbat_offset <built-in function id>\r\n\<close>, not \<^verbatim>\<open>dac 100\r\n\<close>. (The other checking commands
  write the claimed format: \<open>wire_format_other_commands\<close>.)
\<close>

theorem dac_writes_builtin_id:
  "written (snd (dac (PyInt 100) s)) = written s @ ''dac <built-in function id>'' @ CRLF \<and>
   written (snd (vbat_offset (PyInt 100) s)) =
     written s @ ''vbat_offset <built-in function id>'' @ CRLF \<and>
   str (PyInt 100) = ''100'' \<and>
   ''dac <built-in function id>'' @ CRLF \<noteq> ''dac '' @ str (PyInt 100) @ CRLF"
  using then_print_tinySASerial [of "''dac set to '' @ str_builtin_id"
      "''dac '' @ str_builtin_id @ CRLF" s
      "fst (dac (PyInt 100) s)" "snd (dac (PyInt 100) s)"]
    then_print_tinySASerial [of "''vbat_offset set to '' @ str_builtin_id"
      "''vbat_offset '' @ str_builtin_id @ CRLF" s
      "fst (vbat_offset (PyInt 100) s)" "snd (vbat_offset (PyInt 100) s)"]
  by (simp add: dac_def vbat_offset_def str_builtin_id_def str_defs)

text \<open>
  C10. The value returned on rejection is not the same for all commands: \<^verbatim>\<open>agc\<close> returns the
  five bytes \<^verbatim>\<open>ERROR\<close> for every argument other than \<^verbatim>\<open>'auto'\<close> and the integers 0..7, and
  whenever any checking command returns without having written anything (its argument was
  rejected), the value is \<^verbatim>\<open>ERROR\<close> for \<^verbatim>\<open>agc\<close> and the empty bytearray for every other one.
\<close>

theorem rejection_value_not_uniform:
  "(v \<notin> insert (PyStr ''auto'') (PyInt ` {0..7}) \<longrightarrow> fst (agc v s) = Returns ''ERROR'') \<and>
   (call c w t = (Returns r, t') \<and> written t' = written t \<longrightarrow>
      r = (if c = Agc then ''ERROR'' else []))"
proof (intro conjI impI)
  assume "v \<notin> insert (PyStr ''auto'') (PyInt ` {0..7})"
  then have "v \<noteq> PyStr ''auto''" "\<not> in_arange v 0 8"
    by (cases v; auto)+
  then show "fst (agc v s) = Returns ''ERROR''" by (simp add: agc_def)
next
  assume a: "call c w t = (Returns r, t') \<and> written t' = written t"
  from call_trichotomy [of c w t "Returns r" t'] a
  consider "rejected c t (Returns r, t')" | "sent c w t (Returns r, t')" by auto
  then show "r = (if c = Agc then ''ERROR'' else [])"
  proof cases
    case 1
    from rejected_effects [OF 1] show ?thesis by simp
  next
    case 2
    from sent_effects [OF 2] a show ?thesis by simp
  qed
qed

theorem rejection_value_not_uniform_witness:
  "PyInt 9 \<notin> insert (PyStr ''auto'') (PyInt ` {0..7}) \<and>
   fst (agc (PyInt 9) silent) = Returns ''ERROR'' \<and>
   call Attenuate (PyInt 99) silent =
     (Returns [], print_line ''ERROR: attenuate() takes vals [0 - 31]|auto'' silent) \<and>
   written (print_line ''ERROR: attenuate() takes vals [0 - 31]|auto'' silent) = written silent \<and>
   [] = (if Attenuate = Agc then ''ERROR'' else [])"
proof -
  have h1: "PyInt 9 \<notin> insert (PyStr ''auto'') (PyInt ` {0..7})" by auto
  have h2: "call Attenuate (PyInt 99) silent =
      (Returns [], print_line ''ERROR: attenuate() takes vals [0 - 31]|auto'' silent)"
    by (simp add: attenuate_def)
  have h3: "written (print_line ''ERROR: attenuate() takes vals [0 - 31]|auto'' silent) =
      written silent"
    by (simp add: print_line_def)
  from rejection_value_not_uniform [where v = "PyInt 9" and s = silent and c = Attenuate
      and w = "PyInt 99" and t = silent and r = "[]"
      and t' = "print_line ''ERROR: attenuate() takes vals [0 - 31]|auto'' silent"]
    h1 h2 h3
  show ?thesis by simp
qed

text \<open>
  Each of the other commands named with the claim does reject some argument, with the empty
  bytearray.
\<close>

lemma named_commands_reject_with_empty:
  "fst (caloutput (PyInt 5) s) = Returns []"
  "fst (data (PyInt 3) s) = Returns []"
  "fst (load (PyInt 5) s) = Returns []"
  "fst (lna (PyStr ''maybe'') s) = Returns []"
  "fst (output' (PyStr ''maybe'') s) = Returns []"
  by (simp_all add: caloutput_def data_def load_def lna_def output'_def)

end
